theory Spec2Isabelle
  imports Main
begin

section \<open>Python values, errors and strings\<close>

text \<open>
  The bot is written in Python. Exceptions are values of \<open>py_error\<close>; a computation
  that may raise returns \<open>py_error + 'a\<close> with \<open>Inl\<close> for the exception.
  \<open>TelegramError\<close> stands for any exception raised by a call of the Telegram bot API.
\<close>

datatype py_error = AttributeError | TypeError | ValueError | TelegramError

text \<open>
  The values found in a row of the \<open>profiles\<close> table. A row is a Python dict, kept
  here as an association list so that the emptiness test \<open>not profile\<close> computes.
\<close>

datatype pyval = PNone | PBool bool | PInt int | PStr string | PList "pyval list"

type_synonym profile = "(string \<times> pyval) list"

fun truthy :: "pyval \<Rightarrow> bool" where
  "truthy PNone = False"
| "truthy (PBool b) = b"
| "truthy (PInt i) = (i \<noteq> 0)"
| "truthy (PStr s) = (s \<noteq> [])"
| "truthy (PList xs) = (xs \<noteq> [])"

definition dict_get :: "profile \<Rightarrow> string \<Rightarrow> pyval \<Rightarrow> pyval" where
  "dict_get d k dflt = (case map_of d k of None \<Rightarrow> dflt | Some v \<Rightarrow> v)"

text \<open>\<open>str(n)\<close> for an integer: decimal digits, with a minus sign when negative.\<close>

definition digit_char :: "nat \<Rightarrow> char" where
  "digit_char d = ''0123456789'' ! d"

fun digits :: "nat \<Rightarrow> string" where
  "digits n = (if n < 10 then [digit_char n] else digits (n div 10) @ [digit_char (n mod 10)])"

declare digits.simps [simp del]

definition py_str :: "int \<Rightarrow> string" where
  "py_str i = (if i < 0 then CHR ''-'' # digits (nat (- i)) else digits (nat i))"

text \<open>
  \<open>s.replace(old, new)\<close> for a non-empty \<open>old\<close>: the occurrences are replaced from
  left to right, without overlap. Strings are byte sequences here (UTF-8); every
  pattern replaced in the source is ASCII, so the bytes of other characters are
  passed through unchanged.
\<close>

fun replace :: "char \<Rightarrow> string \<Rightarrow> string \<Rightarrow> string \<Rightarrow> string" where
  "replace c cs new [] = []"
| "replace c cs new (x # xs) =
     (if x = c \<and> take (length cs) xs = cs
      then new @ replace c cs new (drop (length cs) xs)
      else x # replace c cs new xs)"

definition bs :: char where
  "bs = CHR 0x5C"

definition markdown_specials :: "char list" where
  "markdown_specials = ''_*[]()~`>#+-=|{}.!''"

text \<open>
  \<open>escape_markdown_v2\<close>, local to \<open>generate_list_message\<close>: a falsy argument gives
  the empty string; a string goes through the chain of \<open>replace\<close> calls in the order
  of the source; any other truthy value has no \<open>replace\<close> attribute.
\<close>

definition escape_markdown_v2 :: "pyval \<Rightarrow> py_error + string" where
  "escape_markdown_v2 text =
     (if \<not> truthy text then Inr []
      else case text of
        PStr s \<Rightarrow> Inr (foldl (\<lambda>acc c. replace c [] [bs, c] acc) s markdown_specials)
      | _ \<Rightarrow> Inl AttributeError)"

section \<open>Time\<close>

text \<open>
  An instant is a number of microseconds since the epoch (the resolution of
  \<open>datetime\<close>), a \<open>timedelta\<close> a number of microseconds. The range limits of
  \<open>datetime\<close> (years 1 to 9999) and of \<open>timedelta\<close> are not modelled.

  A timestamp stored as text is represented by what
  \<open>datetime.fromisoformat(s.replace('Z', '+00:00'))\<close> makes of it: a datetime with a
  UTC offset (an instant), a datetime without one, or a \<open>ValueError\<close>.
\<close>

datatype datetime = Aware int | Naive int

datatype iso_text = IsoAware int | IsoNaive int | IsoMalformed

fun fromisoformat :: "iso_text \<Rightarrow> py_error + datetime" where
  "fromisoformat (IsoAware t) = Inr (Aware t)"
| "fromisoformat (IsoNaive t) = Inr (Naive t)"
| "fromisoformat IsoMalformed = Inl ValueError"

definition isoformat :: "int \<Rightarrow> iso_text" where
  "isoformat t = IsoAware t"

text \<open>Subtracting or comparing an aware and a naive datetime raises \<open>TypeError\<close>.\<close>

fun dt_sub :: "datetime \<Rightarrow> datetime \<Rightarrow> py_error + int" where
  "dt_sub (Aware a) (Aware b) = Inr (a - b)"
| "dt_sub (Naive a) (Naive b) = Inr (a - b)"
| "dt_sub _ _ = Inl TypeError"

fun dt_add :: "datetime \<Rightarrow> int \<Rightarrow> datetime" where
  "dt_add (Aware a) d = Aware (a + d)"
| "dt_add (Naive a) d = Naive (a + d)"

fun dt_less :: "datetime \<Rightarrow> datetime \<Rightarrow> py_error + bool" where
  "dt_less (Aware a) (Aware b) = Inr (a < b)"
| "dt_less (Naive a) (Naive b) = Inr (a < b)"
| "dt_less _ _ = Inl TypeError"

fun dt_le :: "datetime \<Rightarrow> datetime \<Rightarrow> py_error + bool" where
  "dt_le (Aware a) (Aware b) = Inr (a \<le> b)"
| "dt_le (Naive a) (Naive b) = Inr (a \<le> b)"
| "dt_le _ _ = Inl TypeError"

definition second :: int where
  "second = 1000000"

definition timedelta_minutes :: "int \<Rightarrow> int" where
  "timedelta_minutes m = m * 60 * second"

definition timedelta_hours :: "int \<Rightarrow> int" where
  "timedelta_hours h = h * 3600 * second"

section \<open>Floating point\<close>

text \<open>
  \<open>timedelta.total_seconds()\<close> divides the microseconds by \<open>10**6\<close> and returns the
  quotient as a \<open>float\<close>: the nearest IEEE 754 double, ties to even. A double is
  kept as sign, mantissa and binary exponent: \<open>PyFloat neg m s\<close> stands for
  \<open>m * 2^s\<close>, negated when \<open>neg\<close>. The exponent limits of the format are not
  modelled (no value here comes near them).

  \<open>up_shift q p\<close> is the largest \<open>e\<close> with \<open>q * 2^e \<le> p\<close> (for \<open>0 < q \<le> p\<close>),
  \<open>down_shift p q\<close> the least \<open>k\<close> with \<open>q \<le> p * 2^k\<close> (for \<open>0 < p < q\<close>): the
  binary exponent of \<open>p / q\<close>.
\<close>

datatype pyfloat = PyFloat bool nat int

function up_shift :: "nat \<Rightarrow> nat \<Rightarrow> nat" where
  "up_shift q p = (if 0 < q \<and> 2 * q \<le> p then Suc (up_shift (2 * q) p) else 0)"
  by pat_completeness auto
termination
  by (relation "measure (\<lambda>(q, p). p - q)") auto

function down_shift :: "nat \<Rightarrow> nat \<Rightarrow> nat" where
  "down_shift p q = (if 0 < p \<and> p < q then Suc (down_shift (2 * p) q) else 0)"
  by pat_completeness auto
termination
  by (relation "measure (\<lambda>(p, q). q - p)") auto

declare up_shift.simps [simp del]

declare down_shift.simps [simp del]

text \<open>The integer nearest to \<open>p / q\<close>, the even one of two that are equally near.\<close>

definition round_half_even :: "nat \<Rightarrow> nat \<Rightarrow> nat" where
  "round_half_even p q =
     (let f = p div q; r = p mod q
      in if 2 * r < q \<or> (2 * r = q \<and> even f) then f else Suc f)"

text \<open>
  The double nearest to \<open>p / q\<close> for \<open>0 < p\<close> and \<open>0 < q\<close>: with
  \<open>2^e \<le> p / q < 2^(e+1)\<close>, the quotient is rounded to a multiple of \<open>2^(e-52)\<close>.
\<close>

definition round_double :: "nat \<Rightarrow> nat \<Rightarrow> nat \<times> int" where
  "round_double p q =
     (let e = (if q \<le> p then int (up_shift q p) else - int (down_shift p q));
          s = e - 52
      in if s \<le> 0 then (round_half_even (p * 2 ^ nat (- s)) q, s)
         else (round_half_even p (q * 2 ^ nat s), s))"

definition total_seconds :: "int \<Rightarrow> pyfloat" where
  "total_seconds td =
     (if td = 0 then PyFloat False 0 0
      else case round_double (nat \<bar>td\<bar>) 1000000 of (m, s) \<Rightarrow> PyFloat (td < 0) m s)"

text \<open>
  \<open>math.floor\<close> of a double, and \<open>int(x)\<close>, which truncates towards zero. For the
  floats at hand, \<open>int(x // k)\<close> is \<open>float_floor x div k\<close> and \<open>int(x % k)\<close> is
  \<open>float_floor x mod k\<close> (the quotient and the remainder are exact in the format).
\<close>

fun float_floor :: "pyfloat \<Rightarrow> int" where
  "float_floor (PyFloat neg m s) =
     (if 0 \<le> s then (if neg then - int (m * 2 ^ nat s) else int (m * 2 ^ nat s))
      else if neg then - int ((m + 2 ^ nat (- s) - 1) div 2 ^ nat (- s))
      else int (m div 2 ^ nat (- s)))"

fun float_int :: "pyfloat \<Rightarrow> int" where
  "float_int (PyFloat neg m s) =
     (let a = (if 0 \<le> s then m * 2 ^ nat s else m div 2 ^ nat (- s))
      in if neg then - int a else int a)"

text \<open>
  \<open>timedelta(seconds=x)\<close> for a float \<open>x\<close>: the whole seconds are taken exactly;
  the fraction is multiplied by \<open>1e6\<close> in floating point and the product rounded
  to whole microseconds, ties to even.
\<close>

fun timedelta_seconds :: "pyfloat \<Rightarrow> int" where
  "timedelta_seconds (PyFloat neg m s) =
     (let us =
        (if 0 \<le> s then m * 2 ^ nat s * 1000000
         else
           let k = 2 ^ nat (- s); whole = m div k; frac = m mod k
           in if frac = 0 then whole * 1000000
              else case round_double (1000000 * frac) k of (m2, s2) \<Rightarrow>
                     whole * 1000000 +
                     (if 0 \<le> s2 then m2 * 2 ^ nat s2 else round_half_even m2 (2 ^ nat (- s2))))
      in if neg then - int us else int us)"

section \<open>utils/formatting.py\<close>

text \<open>
  \<open>format_time_remaining\<close>: the body of the \<open>try\<close> block, and the function with its
  \<open>except Exception: return "N/A"\<close>. The clock read \<open>datetime.now(timezone.utc)\<close> is
  the argument \<open>now\<close>. The test \<open>time_diff.total_seconds() <= 0\<close> is decided by the
  sign of \<open>time_diff\<close> (rounding keeps the sign); \<open>whole_seconds\<close> is the source's
  variable \<open>total_seconds\<close>, \<open>int(time_diff.total_seconds())\<close>.
\<close>

definition format_time_remaining_try :: "int \<Rightarrow> iso_text \<Rightarrow> py_error + string" where
  "format_time_remaining_try now expires_at =
     (case fromisoformat expires_at of
        Inl e \<Rightarrow> Inl e
      | Inr expiry_time \<Rightarrow>
          (case dt_sub expiry_time (Aware now) of
             Inl e \<Rightarrow> Inl e
           | Inr time_diff \<Rightarrow>
               if time_diff \<le> 0 then Inr ''EXPIRED''
               else
                 let whole_seconds = float_int (total_seconds time_diff);
                     hours = whole_seconds div 3600;
                     minutes = (whole_seconds mod 3600) div 60;
                     seconds = whole_seconds mod 60
                 in if hours > 0
                    then Inr (py_str hours @ ''h '' @ py_str minutes @ ''m '' @ py_str seconds @ ''s'')
                    else if minutes > 0
                    then Inr (py_str minutes @ ''m '' @ py_str seconds @ ''s'')
                    else Inr (py_str seconds @ ''s'')))"

definition format_time_remaining :: "int \<Rightarrow> iso_text \<Rightarrow> string" where
  "format_time_remaining now expires_at =
     (case format_time_remaining_try now expires_at of
        Inl e \<Rightarrow> ''N/A''
      | Inr text \<Rightarrow> text)"

text \<open>
  A row of the \<open>active_listings\<close> table. The store assigns \<open>listing_id\<close>
  (the column \<open>id\<close>); the two timestamps are kept as the text the database returns.
\<close>

record listing =
  listing_id :: nat
  user_id :: int
  message_id :: int
  expires_at :: iso_text
  duration_hours :: int
  last_bump_at :: iso_text

text \<open>The UTF-8 bytes of the speech balloon shown when comments are allowed.\<close>

definition speech_balloon :: string where
  "speech_balloon = [CHR 0xF0, CHR 0x9F, CHR 0x92, CHR 0xAC]"

definition list_header :: "nat \<Rightarrow> string" where
  "list_header count = ''*AVAILABLE NOW ('' @ py_str (int count) @ '' available)*\<newline>\<newline>''"

definition list_entry :: "int \<Rightarrow> nat \<Rightarrow> listing \<Rightarrow> profile \<Rightarrow> py_error + string" where
  "list_entry chat_id i listing profile =
     (case escape_markdown_v2
             (dict_get profile ''name_subject'' (PStr (''Model '' @ py_str (user_id listing)))) of
        Inl e \<Rightarrow> Inl e
      | Inr name_subject \<Rightarrow>
          let allow_comments = dict_get profile ''allow_comments'' (PBool False);
              link_chat_id = replace CHR ''-'' ''100'' [] (py_str chat_id);
              message_link = ''https://t.me/c/'' @ link_chat_id @ ''/'' @ py_str (message_id listing);
              comment_icon = (if truthy allow_comments then speech_balloon else [])
          in Inr (py_str (int i + 1) @ [bs] @ ''. '' @ name_subject @ '' '' @ comment_icon
                  @ '' [View Post]('' @ message_link @ '')\<newline>''))"

fun list_loop :: "(int \<rightharpoonup> profile) \<Rightarrow> int \<Rightarrow> nat \<Rightarrow> listing list \<Rightarrow> string \<Rightarrow> py_error + string" where
  "list_loop profiles chat_id i [] message = Inr message"
| "list_loop profiles chat_id i (listing # rest) message =
     (case profiles (user_id listing) of
        None \<Rightarrow> list_loop profiles chat_id (Suc i) rest message
      | Some profile \<Rightarrow>
          if profile = [] then list_loop profiles chat_id (Suc i) rest message
          else (case list_entry chat_id i listing profile of
                  Inl e \<Rightarrow> Inl e
                | Inr line \<Rightarrow> list_loop profiles chat_id (Suc i) rest (message @ line)))"

definition generate_list_message :: "listing list \<Rightarrow> (int \<rightharpoonup> profile) \<Rightarrow> int \<Rightarrow> py_error + string" where
  "generate_list_message active_listings profiles chat_id =
     (let count = length active_listings;
          message = list_header count
      in if count = 0
         then Inr (message @ ''No models are currently available'' @ [bs] @ ''. Check back soon''
                   @ [bs] @ ''!'')
         else list_loop profiles chat_id 0 active_listings message)"

definition has_profile :: "(int \<rightharpoonup> profile) \<Rightarrow> listing \<Rightarrow> bool" where
  "has_profile profiles listing =
     (case profiles (user_id listing) of None \<Rightarrow> False | Some profile \<Rightarrow> profile \<noteq> [])"

definition entry_of :: "(int \<rightharpoonup> profile) \<Rightarrow> int \<Rightarrow> nat \<times> listing \<Rightarrow> py_error + string" where
  "entry_of profiles chat_id p =
     (case profiles (user_id (snd p)) of
        None \<Rightarrow> Inr []
      | Some profile \<Rightarrow> list_entry chat_id (fst p) (snd p) profile)"

definition shown :: "(int \<rightharpoonup> profile) \<Rightarrow> nat \<Rightarrow> listing list \<Rightarrow> (nat \<times> listing) list" where
  "shown profiles i ls = filter (\<lambda>p. has_profile profiles (snd p)) (enumerate i ls)"

definition name_ok :: "(int \<rightharpoonup> profile) \<Rightarrow> listing \<Rightarrow> bool" where
  "name_ok profiles listing =
     (case profiles (user_id listing) of
        None \<Rightarrow> True
      | Some profile \<Rightarrow>
          (case dict_get profile ''name_subject'' PNone of
             PStr s \<Rightarrow> True
           | v \<Rightarrow> \<not> truthy v))"

definition example_listings :: "listing list" where
  "example_listings =
     [\<lparr>listing_id = 1, user_id = 1, message_id = 70, expires_at = IsoAware 5,
        duration_hours = 2, last_bump_at = IsoAware 0\<rparr>,
      \<lparr>listing_id = 2, user_id = 2, message_id = 77, expires_at = IsoAware 5,
        duration_hours = 2, last_bump_at = IsoAware 0\<rparr>]"

definition example_profiles :: "int \<rightharpoonup> profile" where
  "example_profiles = [2 \<mapsto> [(''name_subject'', PStr ''Ann_B'')]]"

text \<open>
  The three renderings of a positive number of whole seconds, split into hours,
  minutes and seconds; used to state what \<open>format_time_remaining\<close> returns.
\<close>

definition hms_text :: "nat \<Rightarrow> nat \<Rightarrow> nat \<Rightarrow> string" where
  "hms_text h m s =
     (if h > 0 then digits h @ ''h '' @ digits m @ ''m '' @ digits s @ ''s''
      else if m > 0 then digits m @ ''m '' @ digits s @ ''s''
      else digits s @ ''s'')"

section \<open>The world: store, channel and the outcome of external calls\<close>

text \<open>
  What a handler or job can observe and change: the three tables of the store, the
  messages present in the group chat (message id and text), the ids the chat and the
  store hand out next, and a chronological trace of what was done.

  Every call of the Telegram API and every query of the store may fail. \<open>faults\<close>
  is the script of these outcomes, one entry per external call in the order the calls
  are made (\<open>True\<close>: this call raises); when the script is used up, calls succeed.
  A statement about every \<open>faults\<close> covers every pattern of failures.
\<close>

datatype media = InputMediaPhoto pyval "string option" | InputMediaVideo pyval "string option"

text \<open>The replies sent to the invoking user, with the numbers their text shows.\<close>

datatype reply =
    Unauthorized
  | WrongChat
  | NeedProfile
  | ListingReplaced
  | DurationPrompt
  | InvalidDuration
  | ProfileNotFound
  | ListingLive int int
  | NoActiveListing
  | CooldownWait int int
  | BumpPrompt int int
  | NoBumpData
  | ListingMismatch
  | InvalidBumpOption
  | ProfileNotFoundForRepost
  | BumpDone int

datatype event =
    Invoked string
  | ProfileMissing nat
  | DeleteMessage int bool
  | SendMessage string "int option"
  | SendMediaGroup "media list" "int list option"
  | NotAwaited string int
  | DbInsert int int bool
  | DbUpdate nat int bool
  | DbDelete nat bool
  | Reply reply

record world =
  active_listings :: "listing list"
  profiles_table :: "(int \<times> profile) list"
  list_messages :: "(string \<times> int) list"
  channel :: "(int \<times> string) list"
  next_message_id :: int
  next_listing_id :: nat
  faults :: "bool list"
  trace :: "event list"

definition record_event :: "event \<Rightarrow> world \<Rightarrow> world" where
  "record_event e w = w\<lparr>trace := trace w @ [e]\<rparr>"

definition next_fault :: "world \<Rightarrow> bool \<times> world" where
  "next_fault w = (case faults w of [] \<Rightarrow> (False, w) | f # fs \<Rightarrow> (f, w\<lparr>faults := fs\<rparr>))"

subsection \<open>The Telegram bot API\<close>

text \<open>
  The methods of \<open>Bot\<close> are coroutine functions (\<open>bot.py\<close> builds the bot with
  \<open>Application.builder()\<close>). Awaited, \<open>bot.delete_message\<close> raises when the call
  fails or the message is not in the chat; \<open>bot.send_message\<close> and
  \<open>bot.send_media_group\<close> raise when the call fails, and otherwise post under fresh
  message ids.
\<close>

definition bot_delete_message :: "int \<Rightarrow> world \<Rightarrow> (py_error + unit) \<times> world" where
  "bot_delete_message mid w =
     (let (f, w1) = next_fault w in
      if f \<or> map_of (channel w1) mid = None
      then (Inl TelegramError, record_event (DeleteMessage mid False) w1)
      else (Inr (), record_event (DeleteMessage mid True)
                      (w1\<lparr>channel := filter (\<lambda>m. fst m \<noteq> mid) (channel w1)\<rparr>)))"

definition bot_send_message :: "string \<Rightarrow> world \<Rightarrow> (py_error + int) \<times> world" where
  "bot_send_message text w =
     (let (f, w1) = next_fault w in
      if f then (Inl TelegramError, record_event (SendMessage text None) w1)
      else let mid = next_message_id w1
           in (Inr mid, record_event (SendMessage text (Some mid))
                          (w1\<lparr>channel := channel w1 @ [(mid, text)],
                              next_message_id := mid + 1\<rparr>)))"

fun caption :: "media \<Rightarrow> string" where
  "caption (InputMediaPhoto file_id c) = (case c of None \<Rightarrow> [] | Some t \<Rightarrow> t)"
| "caption (InputMediaVideo file_id c) = (case c of None \<Rightarrow> [] | Some t \<Rightarrow> t)"

definition bot_send_media_group :: "media list \<Rightarrow> world \<Rightarrow> (py_error + int list) \<times> world" where
  "bot_send_media_group items w =
     (let (f, w1) = next_fault w in
      if f then (Inl TelegramError, record_event (SendMediaGroup items None) w1)
      else let ids = map (\<lambda>k. next_message_id w1 + int k) [0..<length items]
           in (Inr ids, record_event (SendMediaGroup items (Some ids))
                          (w1\<lparr>channel := channel w1 @ zip ids (map caption items),
                              next_message_id := next_message_id w1 + int (length items)\<rparr>)))"

text \<open>
  Called without \<open>await\<close>, a method of \<open>Bot\<close> only builds a coroutine object. The
  jobs of \<open>scheduler.py\<close> are plain functions and drop that object: no request is
  sent, the chat is left as it is, and nothing is raised. The trace keeps the name
  of the method and the message id of the call that never ran; no outcome of the
  script \<open>faults\<close> is used.
\<close>

definition not_awaited :: "string \<Rightarrow> int \<Rightarrow> world \<Rightarrow> world" where
  "not_awaited method mid w = record_event (NotAwaited method mid) w"

subsection \<open>db.py\<close>

text \<open>
  Every function of \<open>db.py\<close> wraps its query in \<open>try\<close>/\<open>except Exception\<close> and
  returns \<open>None\<close>, \<open>[]\<close> or \<open>False\<close> when the query raises.
\<close>

definition get_profile :: "int \<Rightarrow> world \<Rightarrow> profile option \<times> world" where
  "get_profile uid w =
     (let (f, w1) = next_fault w in
      (if f then None else map_of (profiles_table w1) uid, w1))"

definition get_active_listing :: "int \<Rightarrow> world \<Rightarrow> listing option \<times> world" where
  "get_active_listing uid w =
     (let (f, w1) = next_fault w in
      (if f then None else find (\<lambda>l. user_id l = uid) (active_listings w1), w1))"

text \<open>
  \<open>order("last_bump_at", desc=True)\<close>: latest bump first. A stored text that is no
  instant has no place in a timestamp column; the model needs a key for it, and no
  result below depends on which.
\<close>

fun bump_key :: "iso_text \<Rightarrow> int" where
  "bump_key (IsoAware t) = t"
| "bump_key (IsoNaive t) = t"
| "bump_key IsoMalformed = 0"

definition get_all_active_listings :: "world \<Rightarrow> listing list \<times> world" where
  "get_all_active_listings w =
     (let (f, w1) = next_fault w in
      (if f then [] else sort_key (\<lambda>l. - bump_key (last_bump_at l)) (active_listings w1), w1))"

definition save_active_listing ::
  "int \<Rightarrow> int \<Rightarrow> iso_text \<Rightarrow> int \<Rightarrow> iso_text \<Rightarrow> world \<Rightarrow> bool \<times> world" where
  "save_active_listing uid mid expires duration bumped w =
     (let (f, w1) = next_fault w in
      if f then (False, record_event (DbInsert uid mid False) w1)
      else (True, record_event (DbInsert uid mid True)
                    (w1\<lparr>active_listings := active_listings w1 @
                          [\<lparr>listing_id = next_listing_id w1, user_id = uid, message_id = mid,
                            expires_at = expires, duration_hours = duration,
                            last_bump_at = bumped\<rparr>],
                        next_listing_id := Suc (next_listing_id w1)\<rparr>)))"

definition update_active_listing ::
  "nat \<Rightarrow> int \<Rightarrow> iso_text \<Rightarrow> int \<Rightarrow> iso_text \<Rightarrow> world \<Rightarrow> bool \<times> world" where
  "update_active_listing lid mid expires duration bumped w =
     (let (f, w1) = next_fault w in
      if f then (False, record_event (DbUpdate lid mid False) w1)
      else let hit = (find (\<lambda>l. listing_id l = lid) (active_listings w1) \<noteq> None)
           in (hit, record_event (DbUpdate lid mid hit)
                      (w1\<lparr>active_listings :=
                            map (\<lambda>l. if listing_id l = lid
                                      then l\<lparr>message_id := mid, expires_at := expires,
                                             duration_hours := duration, last_bump_at := bumped\<rparr>
                                      else l)
                                (active_listings w1)\<rparr>)))"

definition delete_active_listing :: "nat \<Rightarrow> world \<Rightarrow> bool \<times> world" where
  "delete_active_listing lid w =
     (let (f, w1) = next_fault w in
      if f then (False, record_event (DbDelete lid False) w1)
      else let hit = (find (\<lambda>l. listing_id l = lid) (active_listings w1) \<noteq> None)
           in (hit, record_event (DbDelete lid hit)
                      (w1\<lparr>active_listings :=
                            filter (\<lambda>l. listing_id l \<noteq> lid) (active_listings w1)\<rparr>)))"

definition get_list_message :: "string \<Rightarrow> world \<Rightarrow> int option \<times> world" where
  "get_list_message list_type w =
     (let (f, w1) = next_fault w in
      (if f then None else map_of (list_messages w1) list_type, w1))"

text \<open>\<open>not profile\<close>: no row, or an empty dict.\<close>

fun falsy :: "profile option \<Rightarrow> bool" where
  "falsy None = True"
| "falsy (Some p) = (p = [])"


section \<open>scheduler.py\<close>

text \<open>
  The configuration read from the environment. \<open>GROUP_CHAT_ID\<close> is taken to be the
  decimal text of an integer, so that \<open>int(GROUP_CHAT_ID)\<close> is that integer and the
  comparison with \<open>str(update.effective_chat.id)\<close> is a comparison of integers.
  \<open>generate_listing_message\<close> is a parameter, \<open>render_listing profile expires_at\<close>
  standing for the call with the profile and a listing of that expiry: the results
  hold for every rendering, also one that raises.
\<close>

record config =
  approved_admin_ids :: "int list"
  group_chat_id :: int
  render_listing :: "profile \<Rightarrow> iso_text \<Rightarrow> py_error + string"

fun get_profiles_loop :: "int list \<Rightarrow> (int \<rightharpoonup> profile) \<Rightarrow> world \<Rightarrow> (int \<rightharpoonup> profile) \<times> world" where
  "get_profiles_loop [] profiles w = (profiles, w)"
| "get_profiles_loop (uid # rest) profiles w =
     (let (profile, w1) = get_profile uid w
      in get_profiles_loop rest
           (if falsy profile then profiles else profiles(uid := profile)) w1)"

definition get_profiles_for_listings :: "listing list \<Rightarrow> world \<Rightarrow> (int \<rightharpoonup> profile) \<times> world" where
  "get_profiles_for_listings listings w =
     get_profiles_loop (map user_id listings) Map.empty w"

text \<open>
  \<open>update_available_lists\<close>. Its first statement, the \<open>print\<close> that the job runs,
  is the trace event \<open>Invoked\<close>. The call \<open>bot.edit_message_text(...)\<close> of line 40
  has no \<open>await\<close>.
\<close>

definition update_available_lists :: "config \<Rightarrow> world \<Rightarrow> (py_error + unit) \<times> world" where
  "update_available_lists cfg w =
     (let w0 = record_event (Invoked ''update_available_lists'') w;
          (active, w1) = get_all_active_listings w0;
          (profiles, w2) = get_profiles_for_listings active w1
      in if active = [] then (Inr (), w2)
         else case generate_list_message active profiles (group_chat_id cfg) of
                Inl e \<Rightarrow> (Inl e, w2)
              | Inr list_content \<Rightarrow>
                  (let (pinned, w3) = get_list_message ''pinned'' w2
                   in case pinned of
                        None \<Rightarrow> (Inr (), w3)
                      | Some mid \<Rightarrow> (Inr (), not_awaited ''edit_message_text'' mid w3)))"

text \<open>
  \<open>update_countdown_timers\<close> calls \<open>db.generate_listing_message\<close>. The module
  \<open>db\<close> defines no such name (the function lives in \<open>utils.formatting\<close>, which
  \<open>scheduler.py\<close> does not import it from), so the attribute lookup raises
  \<open>AttributeError\<close>, outside of the \<open>try\<close> block that follows.
\<close>

definition db_generate_listing_message :: "profile \<Rightarrow> listing \<Rightarrow> py_error + string" where
  "db_generate_listing_message profile listing = Inl AttributeError"

fun countdown_loop :: "int \<Rightarrow> listing list \<Rightarrow> world \<Rightarrow> (py_error + unit) \<times> world" where
  "countdown_loop now [] w = (Inr (), w)"
| "countdown_loop now (listing # rest) w =
     (let time_remaining = format_time_remaining now (expires_at listing);
          (profile, w1) = get_profile (user_id listing) w
      in case profile of
           None \<Rightarrow> countdown_loop now rest (record_event (ProfileMissing (listing_id listing)) w1)
         | Some p \<Rightarrow>
             if p = []
             then countdown_loop now rest (record_event (ProfileMissing (listing_id listing)) w1)
             else (case db_generate_listing_message p listing of
                     Inl e \<Rightarrow> (Inl e, w1)
                   | Inr new_message_text \<Rightarrow>
                       countdown_loop now rest
                         (not_awaited ''edit_message_text'' (message_id listing) w1)))"

definition update_countdown_timers :: "int \<Rightarrow> world \<Rightarrow> (py_error + unit) \<times> world" where
  "update_countdown_timers now w =
     (let w0 = record_event (Invoked ''update_countdown_timers'') w;
          (active, w1) = get_all_active_listings w0
      in countdown_loop now active w1)"

text \<open>
  The body of the sweep for one expired listing (steps 1 and 2 of
  \<open>cleanup_expired_listings\<close>): \<open>bot.delete_message(...)\<close> is called inside
  \<open>try\<close>/\<open>except\<close>, without \<open>await\<close> (line 105), then the record is deleted; the
  result is what \<open>delete_active_listing\<close> returned.
\<close>

definition expire_listing :: "listing \<Rightarrow> world \<Rightarrow> (py_error + bool) \<times> world" where
  "expire_listing listing w =
     (let w1 = not_awaited ''delete_message'' (message_id listing) w;
          (deleted, w2) = delete_active_listing (listing_id listing) w1
      in (Inr deleted, w2))"

fun cleanup_loop :: "int \<Rightarrow> listing list \<Rightarrow> bool \<Rightarrow> world \<Rightarrow> (py_error + bool) \<times> world" where
  "cleanup_loop now [] listings_expired w = (Inr listings_expired, w)"
| "cleanup_loop now (listing # rest) listings_expired w =
     (case fromisoformat (expires_at listing) of
        Inl e \<Rightarrow> (Inl e, w)
      | Inr expiry_time \<Rightarrow>
          (case dt_le expiry_time (Aware now) of
             Inl e \<Rightarrow> (Inl e, w)
           | Inr expired \<Rightarrow>
               if expired
               then (case expire_listing listing w of
                       (Inl e, w1) \<Rightarrow> (Inl e, w1)
                     | (Inr deleted, w1) \<Rightarrow> cleanup_loop now rest True w1)
               else cleanup_loop now rest listings_expired w))"

definition cleanup_expired_listings :: "config \<Rightarrow> int \<Rightarrow> world \<Rightarrow> (py_error + unit) \<times> world" where
  "cleanup_expired_listings cfg now w =
     (let w0 = record_event (Invoked ''cleanup_expired_listings'') w;
          (active, w1) = get_all_active_listings w0
      in case cleanup_loop now active False w1 of
           (Inl e, w2) \<Rightarrow> (Inl e, w2)
         | (Inr listings_expired, w2) \<Rightarrow>
             if listings_expired then update_available_lists cfg w2 else (Inr (), w2))"

section \<open>Notions used to state the properties of the scheduler jobs\<close>

text \<open>
  How often \<open>update_available_lists\<close> was entered, and how many deletions of a
  listing record were asked of the store, according to the trace.
\<close>

definition sync_count :: "world \<Rightarrow> nat" where
  "sync_count w = length (filter (\<lambda>e. e = Invoked ''update_available_lists'') (trace w))"

fun is_db_delete :: "event \<Rightarrow> bool" where
  "is_db_delete (DbDelete lid ok) = True"
| "is_db_delete e = False"

definition delete_count :: "world \<Rightarrow> nat" where
  "delete_count w = length (filter is_db_delete (trace w))"

text \<open>
  A stored expiry that is an instant, and a listing whose expiry is an instant at or
  before \<open>now\<close>: the listings the sweep expires.
\<close>

fun is_instant :: "iso_text \<Rightarrow> bool" where
  "is_instant (IsoAware t) = True"
| "is_instant s = False"

fun due :: "int \<Rightarrow> listing \<Rightarrow> bool" where
  "due now l = (case expires_at l of IsoAware t \<Rightarrow> t \<le> now | _ \<Rightarrow> False)"

text \<open>The listings the sweep reads at its start.\<close>

definition sweep_snapshot :: "world \<Rightarrow> listing list" where
  "sweep_snapshot w =
     fst (get_all_active_listings (record_event (Invoked ''cleanup_expired_listings'') w))"

text \<open>
  Example worlds. Two owners with a profile each; the pinned summary is message 500
  of the chat and names the owners listed when it was last written.
\<close>

definition example_config :: config where
  "example_config =
     \<lparr>approved_admin_ids = [1, 2], group_chat_id = - 1001234,
      render_listing = (\<lambda>profile expires. Inr ''listing'')\<rparr>"

definition listing_of :: "nat \<Rightarrow> int \<Rightarrow> int \<Rightarrow> iso_text \<Rightarrow> iso_text \<Rightarrow> listing" where
  "listing_of lid uid mid expires bumped =
     \<lparr>listing_id = lid, user_id = uid, message_id = mid, expires_at = expires,
      duration_hours = 4, last_bump_at = bumped\<rparr>"

definition world_of :: "listing list \<Rightarrow> bool list \<Rightarrow> world" where
  "world_of ls fs =
     \<lparr>active_listings = ls,
      profiles_table = [(1, [(''name_subject'', PStr ''Ann'')]), (2, [(''name_subject'', PStr ''Bea'')])],
      list_messages = [(''pinned'', 500)],
      channel = [(500, ''pinned list: Ann, Bea''), (70, ''Ann''), (77, ''Bea'')],
      next_message_id = 501, next_listing_id = 3, faults = fs, trace = []\<rparr>"

section \<open>Properties of the floating-point operations\<close>

lemma up_shift_le: "0 < q \<Longrightarrow> q \<le> p \<Longrightarrow> q * 2 ^ up_shift q p \<le> p"
proof (induction q p rule: up_shift.induct)
  case (1 q p)
  show ?case
  proof (cases "2 * q \<le> p")
    case True
    with 1 have "2 * q * 2 ^ up_shift (2 * q) p \<le> p"
      by simp
    moreover have "up_shift q p = Suc (up_shift (2 * q) p)"
      using True 1(2) by (subst up_shift.simps) simp
    ultimately show ?thesis
      by (simp add: mult.assoc)
  next
    case False
    then have "up_shift q p = 0"
      by (subst up_shift.simps) simp
    with 1(3) show ?thesis
      by simp
  qed
qed

lemma up_shift_bound:
  assumes "0 < q" and "q \<le> p" and "p < q * 2 ^ n"
  shows "up_shift q p < n"
proof (rule ccontr)
  assume "\<not> up_shift q p < n"
  then have "n \<le> up_shift q p"
    by simp
  then have "(2::nat) ^ n \<le> 2 ^ up_shift q p"
    by (simp add: power_increasing)
  then have "q * 2 ^ n \<le> q * 2 ^ up_shift q p"
    by simp
  also have "\<dots> \<le> p"
    using assms(1,2) by (rule up_shift_le)
  finally show False
    using assms(3) by simp
qed

lemma round_half_even_lower: "p div q \<le> round_half_even p q"
  by (simp add: round_half_even_def Let_def)

lemma round_half_even_upper:
  assumes "0 < q"
  shows "2 * (round_half_even p q * q) \<le> 2 * p + q"
proof -
  have pq: "p div q * q + p mod q = p"
    by simp
  show ?thesis
  proof (cases "2 * (p mod q) < q \<or> (2 * (p mod q) = q \<and> even (p div q))")
    case True
    then have "round_half_even p q = p div q"
      by (simp add: round_half_even_def Let_def)
    moreover have "2 * (p div q * q) \<le> 2 * p + q"
      using div_times_less_eq_dividend [of p q] by linarith
    ultimately show ?thesis
      by simp
  next
    case False
    then have r: "round_half_even p q = Suc (p div q)"
      by (simp add: round_half_even_def Let_def)
    from False have "q \<le> 2 * (p mod q)"
      by auto
    then have "2 * (p div q * q) + 2 * q \<le> 2 * (p div q * q) + 2 * (p mod q) + q"
      by simp
    also have "\<dots> = 2 * p + q"
      using pq by linarith
    finally show ?thesis
      by (simp add: r)
  qed
qed

text \<open>Rounding to a multiple of \<open>1 / K\<close> keeps the whole part when \<open>q < 2 * K\<close>.\<close>

lemma round_scaled_div:
  assumes q: "0 < q" and K: "q < 2 * K"
  shows "round_half_even (p * K) q div K = p div q"
proof -
  define f where "f = p div q"
  define m where "m = round_half_even (p * K) q"
  have K0: "0 < K"
    using q K by simp
  have "f * q \<le> p"
    by (simp add: f_def)
  then have "f * K * q \<le> p * K"
    by (metis mult.assoc mult.commute mult_le_mono1)
  then have "f * K \<le> p * K div q"
    using q by (simp add: less_eq_div_iff_mult_less_eq)
  also have "\<dots> \<le> m"
    unfolding m_def by (rule round_half_even_lower)
  finally have lo: "f * K \<le> m" .
  have "p < Suc f * q"
    unfolding f_def using q by (metis dividend_less_div_times add.commute mult_Suc)
  then have "Suc p \<le> Suc f * q"
    by simp
  then have "Suc p * K \<le> Suc f * q * K"
    by (rule mult_le_mono1)
  then have pk: "p * K + K \<le> Suc f * K * q"
    by (simp add: algebra_simps)
  have "2 * (m * q) \<le> 2 * (p * K) + q"
    unfolding m_def using q by (rule round_half_even_upper)
  also have "\<dots> < 2 * (p * K) + 2 * K"
    using K by simp
  also have "\<dots> \<le> 2 * (Suc f * K * q)"
    using pk by simp
  finally have "m * q < Suc f * K * q"
    by simp
  then have hi: "m < Suc f * K"
    by simp
  from lo hi have "m div K = f"
    using K0 by (metis div_nat_eqI mult.commute)
  then show ?thesis
    unfolding m_def f_def .
qed

lemma nat_int_Suc: "nat (int k + 1) = Suc k"
  by simp

lemma round_double_whole:
  assumes "p < 1000000 * 2 ^ 34"
  shows "\<exists>m k. round_double p 1000000 = (m, - int (Suc k)) \<and> m div 2 ^ Suc k = p div 1000000"
proof -
  define e :: int where
    "e = (if 1000000 \<le> p then int (up_shift 1000000 p) else - int (down_shift p 1000000))"
  have "e < 34"
  proof (cases "1000000 \<le> p")
    case True
    then have "up_shift 1000000 p < 34"
      using assms by (intro up_shift_bound) simp_all
    with True show ?thesis
      by (simp add: e_def)
  next
    case False
    then show ?thesis
      by (simp add: e_def)
  qed
  define k where "k = nat (51 - e)"
  have s: "e - 52 = - int (Suc k)" and k: "18 \<le> k"
    using \<open>e < 34\<close> by (simp_all add: k_def)
  have "(2::nat) ^ 18 \<le> 2 ^ k"
    using k by (rule power_increasing) simp
  then have K: "(1000000::nat) < 2 * 2 ^ Suc k"
    by simp
  have rd: "round_double p 1000000 = (round_half_even (p * 2 ^ Suc k) 1000000, - int (Suc k))"
    unfolding round_double_def e_def [symmetric] Let_def s
    by (simp add: nat_int_Suc del: power_Suc)
  have "round_half_even (p * 2 ^ Suc k) 1000000 div 2 ^ Suc k = p div 1000000"
    using K by (intro round_scaled_div) simp_all
  with rd show ?thesis
    by blast
qed

lemma total_seconds_whole:
  assumes "0 < d" and "d < 2 ^ 34 * second"
  shows "float_int (total_seconds d) = d div second"
    and "float_floor (total_seconds d) = d div second"
proof -
  have "nat d < 1000000 * 2 ^ 34"
    using assms by (simp add: second_def nat_less_iff)
  then obtain m k where rd: "round_double (nat d) 1000000 = (m, - int (Suc k))"
    and m: "m div 2 ^ Suc k = nat d div 1000000"
    using round_double_whole by blast
  have ts: "total_seconds d = PyFloat False m (- int (Suc k))"
    using assms(1) rd by (simp add: total_seconds_def)
  have "int (nat d div 1000000) = d div second"
    using assms(1) by (simp add: second_def zdiv_int)
  with m show "float_int (total_seconds d) = d div second"
    and "float_floor (total_seconds d) = d div second"
    unfolding ts by (simp_all add: nat_int_Suc del: power_Suc)
qed

section \<open>Properties of \<open>format_time_remaining\<close>\<close>

lemma last_hms_text: "last (hms_text h m s) = CHR ''s''"
  by (simp add: hms_text_def)

lemma hms_text_not_EXPIRED: "hms_text h m s \<noteq> ''EXPIRED''"
  using last_hms_text [of h m s] by auto

lemma py_str_nonneg: "0 \<le> i \<Longrightarrow> py_str i = digits (nat i)"
  by (simp add: py_str_def)

lemma float_int_total_seconds_nonneg: "0 < d \<Longrightarrow> 0 \<le> float_int (total_seconds d)"
  by (simp add: total_seconds_def Let_def split: prod.splits)

lemma format_time_remaining_try_future:
  assumes "now < t"
  shows "format_time_remaining_try now (IsoAware t) =
    Inr (hms_text (nat (float_int (total_seconds (t - now)) div 3600))
                  (nat (float_int (total_seconds (t - now)) mod 3600 div 60))
                  (nat (float_int (total_seconds (t - now)) mod 60)))"
proof -
  define W where "W = float_int (total_seconds (t - now))"
  define H where "H = W div 3600"
  define M where "M = W mod 3600 div 60"
  define S where "S = W mod 60"
  have "0 \<le> W"
    unfolding W_def using assms by (intro float_int_total_seconds_nonneg) simp
  then have H: "0 \<le> H"
    unfolding H_def by simp
  have M: "0 \<le> M" and S: "0 \<le> S"
    unfolding M_def S_def by simp_all
  have td: "\<not> t - now \<le> 0"
    using assms by simp
  have "format_time_remaining_try now (IsoAware t) =
      (if H > 0 then Inr (py_str H @ ''h '' @ py_str M @ ''m '' @ py_str S @ ''s'')
       else if M > 0 then Inr (py_str M @ ''m '' @ py_str S @ ''s'')
       else Inr (py_str S @ ''s''))"
    unfolding format_time_remaining_try_def H_def M_def S_def W_def
    by (simp only: fromisoformat.simps dt_sub.simps sum.case td if_False Let_def)
  also have "\<dots> = Inr (hms_text (nat H) (nat M) (nat S))"
    using H M S by (simp add: hms_text_def py_str_nonneg)
  finally show ?thesis
    unfolding H_def M_def S_def W_def .
qed

lemma format_time_remaining_future:
  assumes "now < t"
  shows "format_time_remaining now (IsoAware t) =
    hms_text (nat (float_int (total_seconds (t - now)) div 3600))
             (nat (float_int (total_seconds (t - now)) mod 3600 div 60))
             (nat (float_int (total_seconds (t - now)) mod 60))"
  by (simp add: format_time_remaining_def format_time_remaining_try_future [OF assms])

lemma format_time_remaining_past:
  "t \<le> now \<Longrightarrow> format_time_remaining now (IsoAware t) = ''EXPIRED''"
  by (simp add: format_time_remaining_def format_time_remaining_try_def)

lemma format_time_remaining_no_instant:
  "format_time_remaining now (IsoNaive t) = ''N/A''"
  "format_time_remaining now IsoMalformed = ''N/A''"
  by (simp_all add: format_time_remaining_def format_time_remaining_try_def)

lemma hms_split:
  fixes d :: int
  assumes "0 \<le> d"
  shows "int (nat (d div 3600) * 3600 + nat (d mod 3600 div 60) * 60 + nat (d mod 60)) = d"
proof -
  define a where "a = d div 3600"
  define b where "b = d mod 3600 div 60"
  define c where "c = d mod 60"
  have a: "0 \<le> a" and b: "0 \<le> b" and c: "0 \<le> c"
    using assms by (simp_all add: a_def b_def c_def)
  have "d mod 3600 mod 60 = d mod 60"
    by (simp add: mod_mod_cancel)
  moreover have "d mod 3600 div 60 * 60 + d mod 3600 mod 60 = d mod 3600"
    by (rule div_mult_mod_eq)
  ultimately have bc: "b * 60 + c = d mod 3600"
    by (simp add: b_def c_def)
  have "a * 3600 + d mod 3600 = d"
    unfolding a_def by (rule div_mult_mod_eq)
  with bc have "a * 3600 + b * 60 + c = d"
    by linarith
  moreover have "int (nat a * 3600 + nat b * 60 + nat c) = a * 3600 + b * 60 + c"
    using a b c by simp
  ultimately show ?thesis
    unfolding a_def b_def c_def by simp
qed

lemma format_time_remaining_example:
  "format_time_remaining 5 (IsoAware 3723000005) = ''1h 2m 3s''"
  by (simp add: format_time_remaining_def format_time_remaining_try_def total_seconds_def
      round_double_def round_half_even_def up_shift.simps py_str_def digits.simps
      digit_char_def Let_def)

text \<open>
  Claim C9, as the code has it. \<open>format_time_remaining\<close> never raises: whatever the
  \<open>try\<close> block raises is turned into \<open>"N/A"\<close>, so the function returns a string for
  every input. It returns \<open>"EXPIRED"\<close> exactly when the text parses to an instant at or
  before \<open>now\<close>. It returns \<open>"N/A"\<close> when the text does not parse (\<open>ValueError\<close>), and
  also when it parses to a datetime without UTC offset, which cannot be subtracted
  from \<open>now\<close> (\<open>TypeError\<close>). When the text parses to an instant after \<open>now\<close>, the
  result renders \<open>int(time_diff.total_seconds())\<close> as natural numbers of hours, minutes
  (below 60) and seconds (below 60); that number is the whole seconds of the
  difference as long as the difference is below \<open>2^34\<close> seconds (beyond, the float
  may round up to the next second).
\<close>

theorem format_time_remaining_total:
  "(format_time_remaining_try now s = Inl e \<longrightarrow> format_time_remaining now s = ''N/A'')
   \<and> (format_time_remaining now s = ''EXPIRED''
        \<longleftrightarrow> (\<exists>t. fromisoformat s = Inr (Aware t) \<and> t \<le> now))
   \<and> (fromisoformat s = Inl e \<longrightarrow> format_time_remaining now s = ''N/A'')
   \<and> (fromisoformat s = Inr (Naive t) \<longrightarrow> format_time_remaining now s = ''N/A'')
   \<and> (fromisoformat s = Inr (Aware t) \<and> now < t \<longrightarrow>
        (\<exists>h m sec. m < 60 \<and> sec < 60
           \<and> int (h * 3600 + m * 60 + sec) = float_int (total_seconds (t - now))
           \<and> format_time_remaining now s = hms_text h m sec))
   \<and> (now < t \<and> t - now < 2 ^ 34 * second \<longrightarrow>
        float_int (total_seconds (t - now)) = (t - now) div second)"
proof (intro conjI impI)
  assume "format_time_remaining_try now s = Inl e"
  then show "format_time_remaining now s = ''N/A''"
    by (simp add: format_time_remaining_def)
next
  show "format_time_remaining now s = ''EXPIRED''
        \<longleftrightarrow> (\<exists>t. fromisoformat s = Inr (Aware t) \<and> t \<le> now)"
  proof (cases s)
    case (IsoAware u)
    then show ?thesis
      by (cases "u \<le> now")
        (simp_all add: format_time_remaining_past format_time_remaining_future
          hms_text_not_EXPIRED)
  qed (simp_all add: format_time_remaining_no_instant)
next
  assume "fromisoformat s = Inl e"
  then show "format_time_remaining now s = ''N/A''"
    by (cases s) (simp_all add: format_time_remaining_no_instant)
next
  assume "fromisoformat s = Inr (Naive t)"
  then show "format_time_remaining now s = ''N/A''"
    by (cases s) (simp_all add: format_time_remaining_no_instant)
next
  assume a: "fromisoformat s = Inr (Aware t) \<and> now < t"
  then have s: "s = IsoAware t"
    by (cases s) simp_all
  from a have lt: "now < t"
    by simp
  let ?d = "float_int (total_seconds (t - now))"
  have d: "0 \<le> ?d"
    using lt by (intro float_int_total_seconds_nonneg) simp
  have m: "nat (?d mod 3600 div 60) < 60" and sec: "nat (?d mod 60) < 60"
    by simp_all
  show "\<exists>h m sec. m < 60 \<and> sec < 60
           \<and> int (h * 3600 + m * 60 + sec) = ?d
           \<and> format_time_remaining now s = hms_text h m sec"
    unfolding s
  proof (intro exI conjI)
    show "nat (?d mod 3600 div 60) < 60" by (rule m)
    show "nat (?d mod 60) < 60" by (rule sec)
    show "int (nat (?d div 3600) * 3600 + nat (?d mod 3600 div 60) * 60 + nat (?d mod 60)) = ?d"
      by (rule hms_split [OF d])
    show "format_time_remaining now (IsoAware t) =
      hms_text (nat (?d div 3600)) (nat (?d mod 3600 div 60)) (nat (?d mod 60))"
      by (rule format_time_remaining_future [OF lt])
  qed
next
  assume "now < t \<and> t - now < 2 ^ 34 * second"
  then show "float_int (total_seconds (t - now)) = (t - now) div second"
    by (intro total_seconds_whole) simp_all
qed

theorem format_time_remaining_total_witness:
  "format_time_remaining 5 (IsoAware 5) = ''EXPIRED''
   \<and> format_time_remaining 5 IsoMalformed = ''N/A''
   \<and> format_time_remaining 5 (IsoNaive 9) = ''N/A''
   \<and> float_int (total_seconds 3723000000) = 3723
   \<and> (\<exists>h m sec. m < 60 \<and> sec < 60
         \<and> int (h * 3600 + m * 60 + sec) = 3723
         \<and> hms_text h m sec = ''1h 2m 3s'')"
  using format_time_remaining_total [of 5 "IsoAware 5" ValueError 9]
    format_time_remaining_total [of 5 IsoMalformed ValueError 9]
    format_time_remaining_total [of 5 "IsoNaive 9" ValueError 9]
    format_time_remaining_total [of 5 "IsoAware 3723000005" ValueError 3723000005]
    format_time_remaining_example
  by (simp add: second_def) (metis (no_types))

text \<open>
  The claim as first stated promised a rendering of the remaining time for every
  text that parses as a timestamp and lies in the future. A timestamp without UTC
  offset parses, and the result is \<open>"N/A"\<close>.
\<close>

theorem format_time_remaining_naive_counterexample:
  "fromisoformat (IsoNaive 9) = Inr (Naive 9)
   \<and> format_time_remaining 5 (IsoNaive 9) = ''N/A''"
  by (simp add: format_time_remaining_def format_time_remaining_try_def)

section \<open>Properties of \<open>generate_list_message\<close>\<close>

lemma list_entry_line:
  "list_entry c i l p = Inr line \<Longrightarrow>
     \<exists>name icon. line = py_str (int i + 1) @ [bs] @ ''. '' @ name @ '' '' @ icon
        @ '' [View Post](https://t.me/c/'' @ replace CHR ''-'' ''100'' [] (py_str c) @ ''/''
        @ py_str (message_id l) @ '')\<newline>''"
  by (auto simp: list_entry_def Let_def split: sum.splits)

lemma list_loop_all2:
  assumes P: "\<And>i l p line. list_entry c i l p = Inr line \<Longrightarrow> P line (i, l)"
  shows "list_loop ps c i ls msg = Inr m \<Longrightarrow>
     \<exists>lines. m = msg @ concat lines
       \<and> list_all2 P lines (filter (\<lambda>p. has_profile ps (snd p)) (enumerate i ls))"
proof (induction ls arbitrary: i msg)
  case Nil
  then show ?case by simp
next
  case (Cons l ls)
  show ?case
  proof (cases "has_profile ps l")
    case False
    then have "list_loop ps c (Suc i) ls msg = Inr m"
      using Cons.prems by (auto simp: has_profile_def split: option.splits if_splits)
    from Cons.IH [OF this] show ?thesis
      using False by simp
  next
    case True
    then obtain p where p: "ps (user_id l) = Some p" "p \<noteq> []"
      by (auto simp: has_profile_def split: option.splits)
    then obtain line where line: "list_entry c i l p = Inr line"
      and rest: "list_loop ps c (Suc i) ls (msg @ line) = Inr m"
      using Cons.prems by (auto split: sum.splits)
    from Cons.IH [OF rest] obtain lines where lines: "m = (msg @ line) @ concat lines"
      "list_all2 P lines (filter (\<lambda>p. has_profile ps (snd p)) (enumerate (Suc i) ls))"
      by blast
    have "P line (i, l)"
      using line by (rule P)
    with lines True have "m = msg @ concat (line # lines)
       \<and> list_all2 P (line # lines)
            (filter (\<lambda>p. has_profile ps (snd p)) (enumerate i (l # ls)))"
      by simp
    then show ?thesis by blast
  qed
qed

lemma list_loop_numbered:
  assumes "list_loop ps c i ls msg = Inr m"
  shows "\<exists>lines. m = msg @ concat lines
       \<and> list_all2
            (\<lambda>line p. \<exists>name icon. line = py_str (int (fst p) + 1) @ [bs] @ ''. '' @ name @ '' ''
               @ icon @ '' [View Post](https://t.me/c/'' @ replace CHR ''-'' ''100'' [] (py_str c)
               @ ''/'' @ py_str (message_id (snd p)) @ '')\<newline>'')
            lines (filter (\<lambda>p. has_profile ps (snd p)) (enumerate i ls))"
proof (rule list_loop_all2 [OF _ assms])
  fix j l p line
  assume "list_entry c j l p = Inr line"
  from list_entry_line [OF this]
  show "\<exists>name icon. line = py_str (int (fst (j, l)) + 1) @ [bs] @ ''. '' @ name @ '' ''
               @ icon @ '' [View Post](https://t.me/c/'' @ replace CHR ''-'' ''100'' [] (py_str c)
               @ ''/'' @ py_str (message_id (snd (j, l))) @ '')\<newline>''"
    unfolding fst_conv snd_conv .
qed

lemma list_entry_ok:
  assumes "ps (user_id l) = Some p" "name_ok ps l"
  shows "\<exists>line. list_entry c i l p = Inr line"
proof (cases "map_of p ''name_subject''")
  case None
  then show ?thesis
    by (simp add: list_entry_def dict_get_def escape_markdown_v2_def Let_def)
next
  case (Some v)
  then have "(\<exists>s. v = PStr s) \<or> \<not> truthy v"
    using assms by (cases v) (simp_all add: name_ok_def dict_get_def)
  then show ?thesis
    using Some by (auto simp: list_entry_def dict_get_def escape_markdown_v2_def Let_def)
qed

lemma list_loop_total:
  "\<forall>l\<in>set ls. name_ok ps l \<Longrightarrow> \<exists>m. list_loop ps c i ls msg = Inr m"
proof (induction ls arbitrary: i msg)
  case Nil
  then show ?case by simp
next
  case (Cons l ls)
  then have ih: "\<And>j msg'. \<exists>m. list_loop ps c j ls msg' = Inr m"
    by simp
  show ?case
  proof (cases "ps (user_id l)")
    case None
    then show ?thesis using ih by simp
  next
    case (Some p)
    with Cons.prems obtain line where "list_entry c i l p = Inr line"
      using list_entry_ok [of ps l p c i] by auto
    then show ?thesis
      using Some ih by simp
  qed
qed

text \<open>
  Claim C10. Whenever \<open>generate_list_message\<close> returns a summary, the summary starts
  with the header \<open>*AVAILABLE NOW (n available)*\<close> and an empty line, where \<open>n\<close> is the
  length of the whole list of active listings, the listings without a profile
  included. For a non-empty list the rest is one line for each listing that has a
  (non-empty) profile, in list order, and no line for any other listing; the line of
  the listing at position \<open>i\<close> of the original list (counted from 0) starts with the
  number \<open>i + 1\<close> followed by an escaped full stop, and ends with the link to that
  listing's message: an omitted listing leaves a gap in the numbering. The function
  returns a summary whenever no shown profile holds a truthy \<open>name_subject\<close> that is
  not a string (the only way it raises).
\<close>

theorem generate_list_message_header_and_numbering:
  "(generate_list_message ls ps c = Inr m \<longrightarrow>
      (\<exists>body. m = ''*AVAILABLE NOW ('' @ py_str (int (length ls)) @ '' available)*\<newline>\<newline>''
                   @ body)
      \<and> (ls \<noteq> [] \<longrightarrow>
           (\<exists>lines.
              m = ''*AVAILABLE NOW ('' @ py_str (int (length ls)) @ '' available)*\<newline>\<newline>''
                  @ concat lines
              \<and> list_all2
                   (\<lambda>line p. \<exists>name icon.
                      line = py_str (int (fst p) + 1) @ [bs] @ ''. '' @ name @ '' '' @ icon
                        @ '' [View Post](https://t.me/c/''
                        @ replace CHR ''-'' ''100'' [] (py_str c) @ ''/''
                        @ py_str (message_id (snd p)) @ '')\<newline>'')
                   lines (filter (\<lambda>p. has_profile ps (snd p)) (enumerate 0 ls)))))
   \<and> ((\<forall>l\<in>set ls. name_ok ps l) \<longrightarrow> (\<exists>m. generate_list_message ls ps c = Inr m))"
proof (intro conjI impI)
  assume r: "generate_list_message ls ps c = Inr m"
  show "\<exists>body. m = ''*AVAILABLE NOW ('' @ py_str (int (length ls))
      @ '' available)*\<newline>\<newline>'' @ body"
  proof (cases ls)
    case Nil
    then show ?thesis
      using r by (auto simp: generate_list_message_def list_header_def)
  next
    case (Cons x xs)
    then have "list_loop ps c 0 ls (list_header (length ls)) = Inr m"
      using r by (simp add: generate_list_message_def Let_def)
    from list_loop_numbered [OF this] show ?thesis
      unfolding list_header_def by (metis (no_types, lifting) append.assoc)
  qed
next
  assume r: "generate_list_message ls ps c = Inr m" and ne: "ls \<noteq> []"
  then have "list_loop ps c 0 ls (list_header (length ls)) = Inr m"
    by (simp add: generate_list_message_def Let_def)
  from list_loop_numbered [OF this]
  show "\<exists>lines.
              m = ''*AVAILABLE NOW ('' @ py_str (int (length ls)) @ '' available)*\<newline>\<newline>''
                  @ concat lines
              \<and> list_all2
                   (\<lambda>line p. \<exists>name icon.
                      line = py_str (int (fst p) + 1) @ [bs] @ ''. '' @ name @ '' '' @ icon
                        @ '' [View Post](https://t.me/c/''
                        @ replace CHR ''-'' ''100'' [] (py_str c) @ ''/''
                        @ py_str (message_id (snd p)) @ '')\<newline>'')
                   lines (filter (\<lambda>p. has_profile ps (snd p)) (enumerate 0 ls))"
    unfolding list_header_def by (simp only: append.assoc)
next
  assume "\<forall>l\<in>set ls. name_ok ps l"
  then show "\<exists>m. generate_list_message ls ps c = Inr m"
    using list_loop_total [of ls ps c 0] by (simp add: generate_list_message_def Let_def)
qed

lemma example_summary:
  "generate_list_message example_listings example_profiles (- 1001234) =
     Inr (''*AVAILABLE NOW (2 available)*\<newline>\<newline>2'' @ [bs] @ ''. Ann'' @ [bs]
          @ ''_B  [View Post](https://t.me/c/1234/77)\<newline>'')"
  by (simp add: generate_list_message_def example_listings_def example_profiles_def
      list_header_def list_entry_def dict_get_def escape_markdown_v2_def markdown_specials_def
      py_str_def digits.simps digit_char_def bs_def Let_def)

lemma example_shown:
  "filter (\<lambda>p. has_profile example_profiles (snd p)) (enumerate 0 example_listings)
     = [(1, \<lparr>listing_id = 2, user_id = 2, message_id = 77, expires_at = IsoAware 5,
              duration_hours = 2, last_bump_at = IsoAware 0\<rparr>)]"
  by (simp add: example_listings_def example_profiles_def has_profile_def)

theorem generate_list_message_header_and_numbering_witness:
  "name_ok example_profiles (example_listings ! 0)
   \<and> name_ok example_profiles (example_listings ! 1)
   \<and> generate_list_message example_listings example_profiles (- 1001234) =
       Inr (''*AVAILABLE NOW (2 available)*\<newline>\<newline>2'' @ [bs] @ ''. Ann'' @ [bs]
            @ ''_B  [View Post](https://t.me/c/1234/77)\<newline>'')
   \<and> (\<exists>line name icon.
         ''*AVAILABLE NOW (2 available)*\<newline>\<newline>2'' @ [bs] @ ''. Ann'' @ [bs]
            @ ''_B  [View Post](https://t.me/c/1234/77)\<newline>''
         = ''*AVAILABLE NOW (2 available)*\<newline>\<newline>'' @ line
       \<and> line = ''2'' @ [bs] @ ''. '' @ name @ '' '' @ icon
            @ '' [View Post](https://t.me/c/1234/77)\<newline>'')"
proof -
  have ok: "\<forall>l\<in>set example_listings. name_ok example_profiles l"
    by (simp add: example_listings_def example_profiles_def name_ok_def dict_get_def)
  have ne: "example_listings \<noteq> []" and len: "length example_listings = 2"
    by (simp_all add: example_listings_def)
  have num: "py_str 2 = ''2''" "py_str 77 = ''77''"
    "replace CHR ''-'' ''100'' [] (py_str (- 1001234)) = ''1234''"
    by (simp_all add: py_str_def digits.simps digit_char_def)
  let ?m = "''*AVAILABLE NOW (2 available)*\<newline>\<newline>2'' @ [bs] @ ''. Ann'' @ [bs]
            @ ''_B  [View Post](https://t.me/c/1234/77)\<newline>''"
  from generate_list_message_header_and_numbering
    [of example_listings example_profiles "- 1001234" ?m] example_summary ne
  obtain lines where lines:
    "?m = ''*AVAILABLE NOW ('' @ py_str (int (length example_listings))
          @ '' available)*\<newline>\<newline>'' @ concat lines"
    "list_all2
       (\<lambda>line p. \<exists>name icon.
          line = py_str (int (fst p) + 1) @ [bs] @ ''. '' @ name @ '' '' @ icon
            @ '' [View Post](https://t.me/c/''
            @ replace CHR ''-'' ''100'' [] (py_str (- 1001234)) @ ''/''
            @ py_str (message_id (snd p)) @ '')\<newline>'')
       lines (filter (\<lambda>p. has_profile example_profiles (snd p)) (enumerate 0 example_listings))"
    by blast
  from lines(2) obtain line name icon where l: "lines = [line]"
    "line = ''2'' @ [bs] @ ''. '' @ name @ '' '' @ icon
            @ '' [View Post](https://t.me/c/1234/77)\<newline>''"
    unfolding example_shown by (auto simp: list_all2_Cons2 num)
  from lines(1) have "?m = ''*AVAILABLE NOW (2 available)*\<newline>\<newline>'' @ line"
    unfolding l(1) len by (simp add: num)
  moreover have "name_ok example_profiles (example_listings ! 0)"
    "name_ok example_profiles (example_listings ! 1)"
    using ok by (simp_all add: example_listings_def)
  ultimately show ?thesis
    using example_summary l(2) by blast
qed

section \<open>What the operations on the world leave unchanged\<close>

lemma next_fault_frame:
  "channel (snd (next_fault w)) = channel w"
  "trace (snd (next_fault w)) = trace w"
  "active_listings (snd (next_fault w)) = active_listings w"
  "profiles_table (snd (next_fault w)) = profiles_table w"
  "list_messages (snd (next_fault w)) = list_messages w"
  by (simp_all add: next_fault_def split: list.splits)

lemma get_profile_world: "snd (get_profile uid w) = snd (next_fault w)"
  by (simp add: get_profile_def split: prod.splits)

lemma get_all_active_listings_world: "snd (get_all_active_listings w) = snd (next_fault w)"
  by (simp add: get_all_active_listings_def split: prod.splits)

lemma get_list_message_world: "snd (get_list_message t w) = snd (next_fault w)"
  by (simp add: get_list_message_def split: prod.splits)

lemma get_profiles_loop_frame:
  "channel (snd (get_profiles_loop uids ps w)) = channel w
   \<and> trace (snd (get_profiles_loop uids ps w)) = trace w
   \<and> active_listings (snd (get_profiles_loop uids ps w)) = active_listings w"
proof (induction uids arbitrary: ps w)
  case Nil
  show ?case by simp
next
  case (Cons uid uids)
  obtain p w1 where g: "get_profile uid w = (p, w1)"
    by (cases "get_profile uid w")
  then have "w1 = snd (next_fault w)"
    using get_profile_world [of uid w] by simp
  then have "channel w1 = channel w" "trace w1 = trace w" "active_listings w1 = active_listings w"
    by (simp_all add: next_fault_frame)
  then show ?case
    using Cons.IH [of _ w1] g by simp
qed

lemma delete_active_listing_frame:
  "channel (snd (delete_active_listing lid w)) = channel w"
  "trace (snd (delete_active_listing lid w)) = trace w @ [DbDelete lid (fst (delete_active_listing lid w))]"
  by (simp_all add: delete_active_listing_def record_event_def next_fault_def Let_def
      split: list.splits)

lemma delete_active_listing_store:
  "active_listings (snd (delete_active_listing lid w)) =
     (if fst (next_fault w) then active_listings w
      else filter (\<lambda>l. listing_id l \<noteq> lid) (active_listings w))"
  "fst (delete_active_listing lid w) =
     (\<not> fst (next_fault w) \<and> find (\<lambda>l. listing_id l = lid) (active_listings w) \<noteq> None)"
  by (simp_all add: delete_active_listing_def record_event_def next_fault_def Let_def
      split: list.splits)

lemma next_fault_fst: "fst (next_fault w) = (case faults w of [] \<Rightarrow> False | f # fs \<Rightarrow> f)"
  by (simp add: next_fault_def split: list.splits)

lemma not_awaited_frame:
  "channel (not_awaited m i w) = channel w"
  "trace (not_awaited m i w) = trace w @ [NotAwaited m i]"
  "active_listings (not_awaited m i w) = active_listings w"
  "fst (next_fault (not_awaited m i w)) = fst (next_fault w)"
  by (simp_all add: not_awaited_def record_event_def next_fault_fst)

lemma expire_listing_unfold:
  "expire_listing l w =
     (Inr (fst (delete_active_listing (listing_id l)
                  (not_awaited ''delete_message'' (message_id l) w))),
      snd (delete_active_listing (listing_id l)
             (not_awaited ''delete_message'' (message_id l) w)))"
  by (simp add: expire_listing_def Let_def split: prod.splits)

lemma expire_listing_result:
  "fst (expire_listing l w) =
     Inr (\<not> fst (next_fault w) \<and> find (\<lambda>x. listing_id x = listing_id l) (active_listings w) \<noteq> None)"
  unfolding expire_listing_unfold
  by (simp only: fst_conv delete_active_listing_store not_awaited_frame)

lemma expire_listing_frame:
  "channel (snd (expire_listing l w)) = channel w"
  "trace (snd (expire_listing l w)) =
     trace w @ [NotAwaited ''delete_message'' (message_id l),
                DbDelete (listing_id l)
                  (\<not> fst (next_fault w) \<and> find (\<lambda>x. listing_id x = listing_id l) (active_listings w) \<noteq> None)]"
  "active_listings (snd (expire_listing l w)) =
     (if fst (next_fault w) then active_listings w
      else filter (\<lambda>x. listing_id x \<noteq> listing_id l) (active_listings w))"
  unfolding expire_listing_unfold
  by (simp_all only: snd_conv delete_active_listing_frame delete_active_listing_store
      not_awaited_frame append.simps append_assoc)

lemma find_filter_absent: "find (\<lambda>x. f x = k) (filter (\<lambda>x. f x \<noteq> k) xs) = None"
  by (simp add: find_None_iff)

lemma find_absent_filter: "find (\<lambda>x. f x = k) xs = None \<Longrightarrow> filter (\<lambda>x. f x \<noteq> k) xs = xs"
  by (simp add: find_None_iff filter_id_conv)

text \<open>The definitions a concrete run of a job unfolds.\<close>

lemmas world_defs =
  get_all_active_listings_def get_profile_def get_list_message_def delete_active_listing_def
  expire_listing_def not_awaited_def record_event_def next_fault_def
  world_of_def listing_of_def Let_def

section \<open>Expiring a listing twice\<close>

text \<open>
  Claim C8. Expiring a listing (steps 1 and 2 of the sweep for one listing) never
  raises, neither the first time nor when repeated on the world the first call left.
  Neither call changes the chat (the deletion of the message is never awaited). When
  the first call deleted the record, the record is absent afterwards, and the second
  call reports that nothing was deleted and leaves the store as the first call left
  it. Expiring a listing whose record is absent is no error: the call reports that
  nothing was deleted and leaves the store unchanged.
\<close>

theorem expire_listing_idempotent:
  "(\<exists>d1 d2. fst (expire_listing l w) = Inr d1
        \<and> fst (expire_listing l (snd (expire_listing l w))) = Inr d2)
   \<and> channel (snd (expire_listing l w)) = channel w
   \<and> channel (snd (expire_listing l (snd (expire_listing l w)))) = channel w
   \<and> (fst (expire_listing l w) = Inr True \<longrightarrow>
        find (\<lambda>x. listing_id x = listing_id l) (active_listings (snd (expire_listing l w))) = None
        \<and> fst (expire_listing l (snd (expire_listing l w))) = Inr False
        \<and> active_listings (snd (expire_listing l (snd (expire_listing l w))))
            = active_listings (snd (expire_listing l w)))
   \<and> (find (\<lambda>x. listing_id x = listing_id l) (active_listings w) = None \<longrightarrow>
        fst (expire_listing l w) = Inr False
        \<and> active_listings (snd (expire_listing l w)) = active_listings w)"
proof (intro conjI impI)
  show "\<exists>d1 d2. fst (expire_listing l w) = Inr d1
        \<and> fst (expire_listing l (snd (expire_listing l w))) = Inr d2"
    by (simp add: expire_listing_result)
  show "channel (snd (expire_listing l w)) = channel w"
    by (simp add: expire_listing_frame)
  show "channel (snd (expire_listing l (snd (expire_listing l w)))) = channel w"
    by (simp add: expire_listing_frame)
next
  assume "fst (expire_listing l w) = Inr True"
  then have nf: "\<not> fst (next_fault w)"
    by (simp add: expire_listing_result)
  then have a: "active_listings (snd (expire_listing l w))
      = filter (\<lambda>x. listing_id x \<noteq> listing_id l) (active_listings w)"
    by (simp add: expire_listing_frame)
  show gone: "find (\<lambda>x. listing_id x = listing_id l) (active_listings (snd (expire_listing l w))) = None"
    unfolding a by (rule find_filter_absent)
  show "fst (expire_listing l (snd (expire_listing l w))) = Inr False"
    by (simp add: expire_listing_result [of l "snd (expire_listing l w)"] gone)
  show "active_listings (snd (expire_listing l (snd (expire_listing l w))))
            = active_listings (snd (expire_listing l w))"
    using find_absent_filter [OF gone]
    by (simp add: expire_listing_frame(3) [of l "snd (expire_listing l w)"])
next
  assume n: "find (\<lambda>x. listing_id x = listing_id l) (active_listings w) = None"
  show "fst (expire_listing l w) = Inr False"
    by (simp add: expire_listing_result n)
  show "active_listings (snd (expire_listing l w)) = active_listings w"
    using find_absent_filter [OF n] by (simp add: expire_listing_frame)
qed

theorem expire_listing_idempotent_witness:
  "fst (expire_listing (listing_of 1 1 70 (IsoAware 5) (IsoAware 0))
          (world_of [listing_of 1 1 70 (IsoAware 5) (IsoAware 0)] [])) = Inr True
   \<and> fst (expire_listing (listing_of 1 1 70 (IsoAware 5) (IsoAware 0))
          (snd (expire_listing (listing_of 1 1 70 (IsoAware 5) (IsoAware 0))
             (world_of [listing_of 1 1 70 (IsoAware 5) (IsoAware 0)] [])))) = Inr False
   \<and> active_listings (snd (expire_listing (listing_of 1 1 70 (IsoAware 5) (IsoAware 0))
          (snd (expire_listing (listing_of 1 1 70 (IsoAware 5) (IsoAware 0))
             (world_of [listing_of 1 1 70 (IsoAware 5) (IsoAware 0)] [])))))
       = active_listings (snd (expire_listing (listing_of 1 1 70 (IsoAware 5) (IsoAware 0))
             (world_of [listing_of 1 1 70 (IsoAware 5) (IsoAware 0)] [])))
   \<and> active_listings (snd (expire_listing (listing_of 1 1 70 (IsoAware 5) (IsoAware 0))
             (world_of [listing_of 1 1 70 (IsoAware 5) (IsoAware 0)] []))) = []
   \<and> find (\<lambda>x. listing_id x = listing_id (listing_of 2 2 77 (IsoAware 5) (IsoAware 0)))
         (active_listings (world_of [listing_of 1 1 70 (IsoAware 5) (IsoAware 0)] [])) = None
   \<and> fst (expire_listing (listing_of 2 2 77 (IsoAware 5) (IsoAware 0))
          (world_of [listing_of 1 1 70 (IsoAware 5) (IsoAware 0)] [])) = Inr False"
  using expire_listing_idempotent [of "listing_of 1 1 70 (IsoAware 5) (IsoAware 0)"
      "world_of [listing_of 1 1 70 (IsoAware 5) (IsoAware 0)] []"]
    expire_listing_idempotent [of "listing_of 2 2 77 (IsoAware 5) (IsoAware 0)"
      "world_of [listing_of 1 1 70 (IsoAware 5) (IsoAware 0)] []"]
  by (simp add: world_defs)

end
